theory Spec2Isabelle
  imports Complex_Main
begin

section \<open>Values, errors and matrices\<close>

text \<open>
  The engine of \<^verbatim>\<open>NonCentralityDistribution.py\<close> works on \<^verbatim>\<open>np.matrix\<close> values and
  floats. Numbers are modelled as exact reals: the model has no rounding and no
  \<^verbatim>\<open>inf\<close>/\<^verbatim>\<open>nan\<close>. Where numpy would produce a non-finite float (a division of a
  numpy scalar by zero), the model stops with \<open>NonFinite\<close>; where Python raises,
  the model returns the exception as an \<open>Inl\<close> value. The strings carried by
  the errors abbreviate Python's messages.
\<close>

datatype pyerr =
    Exception string
  | Exception_of pyerr
  | AttributeError string
  | TypeError string
  | ValueError string
  | IndexError string
  | ZeroDivisionError string
  | LinAlgError string
  | RuntimeError string
  | NonFinite

definition ebind :: "pyerr + 'a \<Rightarrow> ('a \<Rightarrow> pyerr + 'b) \<Rightarrow> pyerr + 'b" where
  "ebind x f = (case x of Inl e \<Rightarrow> Inl e | Inr v \<Rightarrow> f v)"

text \<open>A matrix is the list of its rows; \<open>shape0\<close> and \<open>shape1\<close> are \<^verbatim>\<open>m.shape[0]\<close>
  and \<^verbatim>\<open>m.shape[1]\<close>.\<close>

type_synonym matrix = "real list list"

definition shape0 :: "matrix \<Rightarrow> nat" where
  "shape0 m = length m"

definition shape1 :: "matrix \<Rightarrow> nat" where
  "shape1 m = (case m of [] \<Rightarrow> 0 | r # _ \<Rightarrow> length r)"

definition is_square :: "matrix \<Rightarrow> bool" where
  "is_square m = list_all (\<lambda>r. length r = length m) m"

definition build :: "nat \<Rightarrow> nat \<Rightarrow> (nat \<Rightarrow> nat \<Rightarrow> real) \<Rightarrow> matrix" where
  "build r c f = map (\<lambda>i. map (\<lambda>j. f i j) [0..<c]) [0..<r]"

text \<open>\<^verbatim>\<open>m.T\<close>\<close>

definition transpose_m :: "matrix \<Rightarrow> matrix" where
  "transpose_m m = build (shape1 m) (shape0 m) (\<lambda>i j. m ! j ! i)"

text \<open>\<^verbatim>\<open>np.tril(m)\<close> keeps the entries on and below the diagonal, \<^verbatim>\<open>np.triu(m, k)\<close>
  those on and above the \<open>k\<close>-th diagonal; the other entries become 0.\<close>

definition tril :: "matrix \<Rightarrow> matrix" where
  "tril m = build (shape0 m) (shape1 m) (\<lambda>i j. if j \<le> i then m ! i ! j else 0)"

definition triu :: "matrix \<Rightarrow> nat \<Rightarrow> matrix" where
  "triu m k = build (shape0 m) (shape1 m) (\<lambda>i j. if i + k \<le> j then m ! i ! j else 0)"

text \<open>\<^verbatim>\<open>x + y\<close> on matrices is elementwise with numpy broadcasting: two extents are
  compatible when they are equal or one of them is 1.\<close>

definition bdim :: "nat \<Rightarrow> nat \<Rightarrow> nat option" where
  "bdim p q = (if p = q then Some p else if p = 1 then Some q
               else if q = 1 then Some p else None)"

definition bidx :: "nat \<Rightarrow> nat \<Rightarrow> nat" where
  "bidx extent i = (if extent = 1 then 0 else i)"

definition mat_add :: "matrix \<Rightarrow> matrix \<Rightarrow> pyerr + matrix" where
  "mat_add x y =
     (case bdim (shape0 x) (shape0 y) of
        None \<Rightarrow> Inl (ValueError ''operands could not be broadcast together'')
      | Some r \<Rightarrow>
         (case bdim (shape1 x) (shape1 y) of
            None \<Rightarrow> Inl (ValueError ''operands could not be broadcast together'')
          | Some c \<Rightarrow>
             Inr (build r c (\<lambda>i j. x ! bidx (shape0 x) i ! bidx (shape1 x) j
                                  + y ! bidx (shape0 y) i ! bidx (shape1 y) j))))"

text \<open>\<^verbatim>\<open>x * y\<close> on two \<^verbatim>\<open>np.matrix\<close> values is the matrix product, which raises when
  the inner extents differ; \<^verbatim>\<open>x * c\<close> with a scalar scales every entry.\<close>

definition mat_mul :: "matrix \<Rightarrow> matrix \<Rightarrow> pyerr + matrix" where
  "mat_mul x y =
     (if shape1 x \<noteq> shape0 y then Inl (ValueError ''shapes not aligned'')
      else Inr (build (shape0 x) (shape1 y)
                  (\<lambda>i j. sum_list (map (\<lambda>k. x ! i ! k * y ! k ! j) [0..<shape1 x]))))"

definition smul :: "matrix \<Rightarrow> real \<Rightarrow> matrix" where
  "smul m c = map (map (\<lambda>v. v * c)) m"

text \<open>\<^verbatim>\<open>np.trace(m)\<close> sums the main diagonal.\<close>

definition trace_m :: "matrix \<Rightarrow> real" where
  "trace_m m = sum_list (map (\<lambda>i. m ! i ! i) [0..<min (shape0 m) (shape1 m)])"

text \<open>\<^verbatim>\<open>np.identity(b)\<close>\<close>

definition identity_m :: "nat \<Rightarrow> matrix" where
  "identity_m b = build b b (\<lambda>i j. if i = j then 1 else 0)"

text \<open>\<^verbatim>\<open>np.flip(m, 1)\<close> reverses the order of the columns.\<close>

definition flip1 :: "matrix \<Rightarrow> matrix" where
  "flip1 m = map rev m"

text \<open>\<^verbatim>\<open>m[i, j]\<close> with non-negative indices.\<close>

definition mat_get :: "matrix \<Rightarrow> nat \<Rightarrow> nat \<Rightarrow> pyerr + real" where
  "mat_get m i j =
     (if i < shape0 m \<and> j < shape1 m \<and> j < length (m ! i) then Inr (m ! i ! j)
      else Inl (IndexError ''index out of bounds''))"

text \<open>Division written \<^verbatim>\<open>x / y\<close> in the source: with a Python number as divisor a zero
  raises \<^verbatim>\<open>ZeroDivisionError\<close>; with a numpy scalar as divisor a zero gives \<^verbatim>\<open>inf\<close> or
  \<^verbatim>\<open>nan\<close> and a warning, which the model reports as \<open>NonFinite\<close>.\<close>

definition py_div :: "real \<Rightarrow> real \<Rightarrow> pyerr + real" where
  "py_div x y = (if y = 0 then Inl (ZeroDivisionError ''division by zero'') else Inr (x / y))"

definition np_div :: "real \<Rightarrow> real \<Rightarrow> pyerr + real" where
  "np_div x y = (if y = 0 then Inl NonFinite else Inr (x / y))"

section \<open>Symmetrization\<close>

text \<open>
  \<^verbatim>\<open>
  def forceSymmetric(self, m: np.matrix):
      return np.tril(m) + np.triu(m.T, 1)
  \<close>
\<close>

definition forceSymmetric :: "matrix \<Rightarrow> pyerr + matrix" where
  "forceSymmetric m = mat_add (tril m) (triu (transpose_m m) 1)"

section \<open>Constants and external collaborators\<close>

text \<open>
  The members of the enumeration \<^verbatim>\<open>Constants\<close> that the sources refer to. The module
  \<^verbatim>\<open>pyglimmpse.constants\<close> itself is not among the sources, so the \<^verbatim>\<open>.value\<close> of a
  member is a parameter wherever the code reads it.
\<close>

datatype constants =
    HLT | UN_uncorrected | HF | GG | BOX | CM
  | ERR_NOT_POSITIVE_DEFINITE
  | FMETHOD_NORMAL_LR
  | UCDF_MULLER1989_APPROXIMATION
  | CLTYPE_DESIRED_KNOWN

datatype scalar = SNone | SBool bool | SInt int | SFloat real | SStr string

text \<open>Python's truth value of a scalar, as an \<^verbatim>\<open>if\<close> or an \<^verbatim>\<open>or\<close> tests it.\<close>

fun truthy :: "scalar \<Rightarrow> bool" where
  "truthy SNone = False"
| "truthy (SBool b) = b"
| "truthy (SInt i) = (i \<noteq> 0)"
| "truthy (SFloat x) = (x \<noteq> 0)"
| "truthy (SStr s) = (s \<noteq> [])"

text \<open>\<^verbatim>\<open>ChiSquareTerm(lambda_, nu, delta)\<close>\<close>

datatype chi_square_term = ChiSquareTerm real real real

text \<open>
  What the engine calls but does not define: numpy's \<^verbatim>\<open>linalg.inv\<close>, \<^verbatim>\<open>linalg.cholesky\<close>,
  \<^verbatim>\<open>linalg.eig\<close> and \<^verbatim>\<open>linalg.eigvals\<close> (each may raise), the value of
  \<^verbatim>\<open>Constants.HLT\<close>, and two collaborators of the package. All of them are parameters
  of the model, collected in one record.
\<close>

text \<open>
  Modelled from the spec: \<^verbatim>\<open>pyglimmpse.probf.probf\<close> and
  \<^verbatim>\<open>WeightedSumOfNoncentralChiSquaresDistribution\<close> are missing from the sources. The
  tail-probability collaborator returns both a probability and a method tag for
  \<open>fcrit\<close>, \<open>df1\<close>, \<open>df2\<close>, \<open>noncen\<close> (both callers in the sources unpack a pair);
  the solver, built from the terms and two numbers, returns the CDF at a point.
\<close>

record externals =
  HLT_value :: scalar
  linalg_inv :: "matrix \<Rightarrow> pyerr + matrix"
  linalg_cholesky :: "matrix \<Rightarrow> pyerr + matrix"
  linalg_eig :: "matrix \<Rightarrow> pyerr + real list \<times> matrix"
  linalg_eigvals :: "matrix \<Rightarrow> pyerr + real list"
  probf :: "real \<Rightarrow> real \<Rightarrow> real \<Rightarrow> real \<Rightarrow> real \<times> constants"
  wsum_cdf :: "chi_square_term list \<Rightarrow> real \<Rightarrow> real \<Rightarrow> real \<Rightarrow> real"

section \<open>Positive definiteness and the inverse of sigma\_star\<close>

text \<open>
  \<^verbatim>\<open>
  def isPositiveDefinite(self, m: np.matrix):
      if m.shape[0] != m.shape[1]:
          raise Exception("Matrix must be non-null, square")
      eigenvalues = np.linalg.eigvals(m)
      test = [val > 0.0 for val in eigenvalues]
      return all(test)
  \<close>
\<close>

definition isPositiveDefinite :: "externals \<Rightarrow> matrix \<Rightarrow> pyerr + bool" where
  "isPositiveDefinite ext m =
     (if shape0 m \<noteq> shape1 m then Inl (Exception ''Matrix must be non-null, square'')
      else ebind (linalg_eigvals ext m)
             (\<lambda>eigenvalues. Inr (list_all (\<lambda>val. val > 0) eigenvalues)))"

text \<open>\<^verbatim>\<open>identity * float(b) * epsilon / sigmaStarTrace\<close>: every entry is scaled and then
  divided by a numpy scalar.\<close>

definition scaled_identity :: "nat \<Rightarrow> real \<Rightarrow> real \<Rightarrow> pyerr + matrix" where
  "scaled_identity b epsilon sigmaStarTrace =
     (if sigmaStarTrace = 0 then Inl NonFinite
      else Inr (map (map (\<lambda>v. v * real b * epsilon / sigmaStarTrace)) (identity_m b)))"

text \<open>
  \<^verbatim>\<open>
  def getSigmaStarInverse(self, sigma_star, test):
      if not self.isPositiveDefinite(sigma_star):
          self.errors.append(Constants.ERR_NOT_POSITIVE_DEFINITE)
      if test == Constants.HLT or Constants.HLT.value:
          return np.linalg.inv(sigma_star)
      else:
          b = sigma_star.shape[1]
          sigmaStarTrace = np.trace(sigma_star)
          sigmaStarSquaredTrace = np.trace(sigma_star * sigma_star)
          epsilon = (sigmaStarTrace * sigmaStarTrace) / (b * sigmaStarSquaredTrace)
          identity = np.identity(b)
          return identity * float(b) * epsilon / sigmaStarTrace
  \<close>
  The method reads and extends \<^verbatim>\<open>self.errors\<close>; the model takes the list and returns
  it with the result.
\<close>

definition getSigmaStarInverse ::
  "externals \<Rightarrow> constants list \<Rightarrow> matrix \<Rightarrow> constants \<Rightarrow> pyerr + matrix \<times> constants list" where
  "getSigmaStarInverse ext errs sigma_star test =
     ebind (isPositiveDefinite ext sigma_star) (\<lambda>pd.
       let errs' = (if \<not> pd then errs @ [ERR_NOT_POSITIVE_DEFINITE] else errs) in
       if test = HLT \<or> truthy (HLT_value ext)
       then ebind (linalg_inv ext sigma_star) (\<lambda>r. Inr (r, errs'))
       else
         let b = shape1 sigma_star;
             sigmaStarTrace = trace_m sigma_star
         in ebind (mat_mul sigma_star sigma_star) (\<lambda>sq.
              let sigmaStarSquaredTrace = trace_m sq in
              ebind (np_div (sigmaStarTrace * sigmaStarTrace) (real b * sigmaStarSquaredTrace))
                (\<lambda>epsilon.
                   ebind (scaled_identity b epsilon sigmaStarTrace) (\<lambda>r. Inr (r, errs')))))"

section \<open>The engine and its construction\<close>

text \<open>
  The attributes of a \<^verbatim>\<open>NonCentralityDistribution\<close> object. \<open>attr_S\<close>, \<open>attr_a\<close> and
  \<open>attr_N\<close> are the attributes \<^verbatim>\<open>S\<close>, \<^verbatim>\<open>a\<close> and \<^verbatim>\<open>N\<close>. \<^verbatim>\<open>a\<close> is the class
  attribute \<^verbatim>\<open>a = int()\<close>, which no method assigns.
\<close>

record engine =
  T1 :: matrix
  FT1 :: matrix
  attr_S :: matrix
  mzSq :: matrix
  H1 :: real
  H0 :: real
  qF :: nat
  attr_a :: int
  attr_N :: real
  sEigenValues :: "real list"
  sStar :: nat
  exact :: bool
  errors :: "constants list"

text \<open>
  \<^verbatim>\<open>
  if len(self.sEigenValues) > 0:
      self.H0 = self.H1 * (1 - self.sEigenValues[0])
  if self.H0 <= 0:
      self.H0 = 0
  \<close>
  with \<^verbatim>\<open>self.H0 = 0\<close> from the reset at the start of \<^verbatim>\<open>initialize\<close>.
\<close>

definition lower_bound :: "real \<Rightarrow> real list \<Rightarrow> real" where
  "lower_bound h1 evs =
     (let h0 = (if length evs > 0 then h1 * (1 - evs ! 0) else 0)
      in if h0 \<le> 0 then 0 else h0)"

text \<open>
  \<^verbatim>\<open>
  for value in self.sEigenValues:
      if value > 0:
          self.sStar += 1
  \<close>
\<close>

fun count_positive :: "real list \<Rightarrow> nat \<Rightarrow> nat" where
  "count_positive [] n = n"
| "count_positive (v # vs) n = count_positive vs (if v > 0 then n + 1 else n)"

text \<open>The nested loops that replace every entry of \<^verbatim>\<open>mzSq\<close> by its square.\<close>

definition square_entries :: "matrix \<Rightarrow> matrix" where
  "square_entries m = map (map (\<lambda>entry. entry * entry)) m"

text \<open>
  \<^verbatim>\<open>initialize\<close> (lines 60-125 of \<^verbatim>\<open>NonCentralityDistribution.py\<close>). Operands are
  evaluated left to right, so the first failing operation decides the exception; the
  \<^verbatim>\<open>except Exception as e: raise e\<close> re-raises it unchanged. On an exception no engine
  is returned.
\<close>

definition initialize ::
  "externals \<Rightarrow> constants \<Rightarrow> matrix \<Rightarrow> real \<Rightarrow> matrix \<Rightarrow> matrix \<Rightarrow> matrix \<Rightarrow> matrix
     \<Rightarrow> real \<Rightarrow> bool \<Rightarrow> pyerr + engine" where
  "initialize ext test FEssence perGroupN Cfixed CGaussian thetaDiff sigmaStar stddevG exact_flag =
     ebind (mat_mul (transpose_m FEssence) FEssence) (\<lambda>FtF.
     ebind (linalg_inv ext FtF) (\<lambda>FtFinverse.
     ebind (mat_mul Cfixed FtFinverse) (\<lambda>p1.
     ebind (py_div 1 perGroupN) (\<lambda>rn.
     ebind (mat_mul (smul p1 rn) (transpose_m Cfixed)) (\<lambda>PPt.
     ebind (linalg_inv ext PPt) (\<lambda>PPtInverse.
     ebind (forceSymmetric PPtInverse) (\<lambda>t1.
     ebind (linalg_cholesky ext t1) (\<lambda>ft1.
     ebind (getSigmaStarInverse ext [] sigmaStar test) (\<lambda>(sigmaStarInverse, errs).
     ebind (mat_mul (transpose_m thetaDiff) t1) (\<lambda>h1a.
     ebind (mat_mul h1a thetaDiff) (\<lambda>h1b.
     ebind (mat_mul h1b sigmaStarInverse) (\<lambda>H1matrix.
     let h1 = trace_m H1matrix in
     ebind (mat_mul (transpose_m ft1) thetaDiff) (\<lambda>s1.
     ebind (mat_mul s1 sigmaStarInverse) (\<lambda>s2.
     ebind (mat_mul s2 (transpose_m thetaDiff)) (\<lambda>s3.
     ebind (mat_mul s3 ft1) (\<lambda>s4.
     ebind (np_div 1 h1) (\<lambda>rh1.
     let s = smul s4 rh1 in
     ebind (linalg_eig ext s) (\<lambda>(evs, svecs0).
     let evs' = rev evs;
         svec = transpose_m (flip1 svecs0);
         h0 = lower_bound h1 evs';
         sstar = count_positive evs' 0
     in
     ebind (mat_mul svec (transpose_m ft1)) (\<lambda>z1.
     ebind (mat_mul z1 CGaussian) (\<lambda>z2.
     ebind (py_div 1 stddevG) (\<lambda>rs.
       Inr \<lparr> T1 = t1, FT1 = ft1, attr_S = s, mzSq = square_entries (smul z2 rs),
             H1 = h1, H0 = h0, qF = shape1 FEssence, attr_a = 0,
             attr_N = real (shape0 FEssence) * perGroupN,
             sEigenValues = evs', sStar = sstar, exact = exact_flag,
             errors = errs \<rparr>)))))))))))))))))))))"

section \<open>The two mutators\<close>

text \<open>
  Python evaluates the arguments of a call from left to right before it calls, and
  reading an attribute that neither the object nor its class has raises
  \<^verbatim>\<open>AttributeError\<close>. The attributes of an engine are the class attributes of
  \<^verbatim>\<open>NonCentralityDistribution\<close> together with the ones \<^verbatim>\<open>initialize\<close> assigns; no method
  stores the model inputs.
\<close>

datatype pyval =
    VScalar scalar
  | VConst constants
  | VMatrix matrix
  | VArray "real list"
  | VErrors "constants list"
  | VMethod string

definition method_names :: "string list" where
  "method_names = [''initialize'', ''setPerGroupSampleSize'', ''setBeta'', ''cdf'',
     ''inverseCDF'', ''NonCentralityQuantileFunction'', ''getSigmaStarInverse'', ''getH1'',
     ''getH0'', ''isPositiveDefinite'', ''forceSymmetric'']"

definition engine_getattr :: "engine \<Rightarrow> string \<Rightarrow> pyerr + pyval" where
  "engine_getattr e name =
     (if name = ''NOT_POSITIVE_DEFINITE'' then Inr (VScalar (SStr ''Unfortunately, there is no solution for this combination of input parameters. A matrix that arose during the computation is not positive definite. It may be possible to reduce expected covariate/response correlations and obtain a soluble combination.''))
      else if name = ''MAX_ITERATIONS'' then Inr (VScalar (SInt 10000))
      else if name = ''ACCURACY'' then Inr (VScalar (SFloat 0.001))
      else if name = ''T1'' then Inr (VMatrix (T1 e))
      else if name = ''FT1'' then Inr (VMatrix (FT1 e))
      else if name = ''S'' then Inr (VMatrix (attr_S e))
      else if name = ''mzSq'' then Inr (VMatrix (mzSq e))
      else if name = ''H1'' then Inr (VScalar (SFloat (H1 e)))
      else if name = ''H0'' then Inr (VScalar (SFloat (H0 e)))
      else if name = ''qF'' then Inr (VScalar (SInt (int (qF e))))
      else if name = ''a'' then Inr (VScalar (SInt (attr_a e)))
      else if name = ''N'' then Inr (VScalar (SFloat (attr_N e)))
      else if name = ''sEigenValues'' then Inr (VArray (sEigenValues e))
      else if name = ''sStar'' then Inr (VScalar (SInt (int (sStar e))))
      else if name = ''exact'' then Inr (VScalar (SBool (exact e)))
      else if name = ''errors'' then Inr (VErrors (errors e))
      else if name \<in> set method_names then Inr (VMethod name)
      else Inl (AttributeError name))"

fun eval_args :: "(pyerr + pyval) list \<Rightarrow> pyerr + pyval list" where
  "eval_args [] = Inr []"
| "eval_args (x # xs) = ebind x (\<lambda>v. ebind (eval_args xs) (\<lambda>vs. Inr (v # vs)))"

definition as_const :: "pyval \<Rightarrow> pyerr + constants" where
  "as_const v = (case v of VConst c \<Rightarrow> Inr c | _ \<Rightarrow> Inl (TypeError ''not a Constants member''))"

definition as_matrix :: "pyval \<Rightarrow> pyerr + matrix" where
  "as_matrix v = (case v of VMatrix m \<Rightarrow> Inr m | _ \<Rightarrow> Inl (AttributeError ''shape''))"

definition as_number :: "pyval \<Rightarrow> pyerr + real" where
  "as_number v = (case v of VScalar (SFloat x) \<Rightarrow> Inr x | VScalar (SInt i) \<Rightarrow> Inr (real_of_int i)
                  | _ \<Rightarrow> Inl (TypeError ''not a number''))"

definition as_bool :: "pyval \<Rightarrow> pyerr + bool" where
  "as_bool v = (case v of VScalar s \<Rightarrow> Inr (truthy s) | _ \<Rightarrow> Inr True)"

text \<open>A call \<^verbatim>\<open>self.initialize(...)\<close> with positional arguments: the method has nine
  parameters after \<^verbatim>\<open>self\<close>, and any other number of arguments is a \<^verbatim>\<open>TypeError\<close>.\<close>

definition call_initialize :: "externals \<Rightarrow> pyval list \<Rightarrow> pyerr + engine" where
  "call_initialize ext args =
     (if length args \<noteq> 9 then Inl (TypeError ''initialize() takes 10 positional arguments'')
      else
        ebind (as_const (args ! 0)) (\<lambda>test.
        ebind (as_matrix (args ! 1)) (\<lambda>FEssence.
        ebind (as_number (args ! 2)) (\<lambda>perGroupN.
        ebind (as_matrix (args ! 3)) (\<lambda>Cfixed.
        ebind (as_matrix (args ! 4)) (\<lambda>CGaussian.
        ebind (as_matrix (args ! 5)) (\<lambda>thetaDiff.
        ebind (as_matrix (args ! 6)) (\<lambda>sigmaStar.
        ebind (as_number (args ! 7)) (\<lambda>stddevG.
        ebind (as_bool (args ! 8)) (\<lambda>exact_flag.
          initialize ext test FEssence perGroupN Cfixed CGaussian thetaDiff sigmaStar
            stddevG exact_flag))))))))))"

text \<open>
  \<^verbatim>\<open>
  def setPerGroupSampleSize(self, perGroupN):
      self.initialize(self.test, self.FEssence, self.FtFinverse, perGroupN, self.CFixed,
                      self.CRand, self.U, self.thetaNull, self.beta, self.sigmaError,
                      self.sigmaG, self.exact)

  def setBeta(self, beta):
      self.initialize(self.test, self.FEssence, self.FtFinverse, self.perGroupN, self.CFixed,
                      self.CRand, self.U, self.thetaNull, beta, self.sigmaError,
                      self.sigmaG, self.exact)
  \<close>
\<close>

definition setPerGroupSampleSize :: "externals \<Rightarrow> engine \<Rightarrow> pyval \<Rightarrow> pyerr + engine" where
  "setPerGroupSampleSize ext e perGroupN =
     ebind (eval_args [engine_getattr e ''test'', engine_getattr e ''FEssence'',
                       engine_getattr e ''FtFinverse'', Inr perGroupN,
                       engine_getattr e ''CFixed'', engine_getattr e ''CRand'',
                       engine_getattr e ''U'', engine_getattr e ''thetaNull'',
                       engine_getattr e ''beta'', engine_getattr e ''sigmaError'',
                       engine_getattr e ''sigmaG'', engine_getattr e ''exact''])
       (call_initialize ext)"

definition setBeta :: "externals \<Rightarrow> engine \<Rightarrow> pyval \<Rightarrow> pyerr + engine" where
  "setBeta ext e beta =
     ebind (eval_args [engine_getattr e ''test'', engine_getattr e ''FEssence'',
                       engine_getattr e ''FtFinverse'', engine_getattr e ''perGroupN'',
                       engine_getattr e ''CFixed'', engine_getattr e ''CRand'',
                       engine_getattr e ''U'', engine_getattr e ''thetaNull'',
                       Inr beta, engine_getattr e ''sigmaError'',
                       engine_getattr e ''sigmaG'', engine_getattr e ''exact''])
       (call_initialize ext)"

section \<open>The cumulative distribution function\<close>

record accum =
  chiSquareTerms :: "chi_square_term list"
  m1Positive :: real
  m1Negative :: real
  m2Positive :: real
  m2Negative :: real
  numPositive :: nat
  numNegative :: nat
  lastPositiveNoncentrality :: real
  lastNegativeNoncentrality :: real

definition accum0 :: accum where
  "accum0 = \<lparr> chiSquareTerms = [], m1Positive = 0, m1Negative = 0, m2Positive = 0,
              m2Negative = 0, numPositive = 0, numNegative = 0,
              lastPositiveNoncentrality = 0, lastNegativeNoncentrality = 0 \<rparr>"

text \<open>Appending one term and accumulating it: lines 158-173 and 183-203. A term with
  weight 0 is appended but not accumulated.\<close>

definition add_term :: "real \<Rightarrow> real \<Rightarrow> real \<Rightarrow> accum \<Rightarrow> accum" where
  "add_term lam nu delta acc =
     (let acc1 = acc\<lparr> chiSquareTerms := chiSquareTerms acc @ [ChiSquareTerm lam nu delta] \<rparr>
      in if lam > 0 then
           acc1\<lparr> numPositive := numPositive acc + 1,
                 lastPositiveNoncentrality := delta,
                 m1Positive := m1Positive acc + lam * (nu + delta),
                 m2Positive := m2Positive acc + lam * lam * 2 * (nu + 2 * delta) \<rparr>
         else if lam < 0 then
           acc1\<lparr> numNegative := numNegative acc + 1,
                 lastNegativeNoncentrality := delta,
                 m1Negative := m1Negative acc + -1 * lam * (nu + delta),
                 m2Negative := m2Negative acc + lam * lam * 2 * (nu + 2 * delta) \<rparr>
         else acc1)"

text \<open>\<^verbatim>\<open>self.sEigenValues[k]\<close> on the numpy array.\<close>

definition array_get :: "real list \<Rightarrow> nat \<Rightarrow> pyerr + real" where
  "array_get xs k = (if k < length xs then Inr (xs ! k) else Inl (IndexError ''index out of bounds''))"

text \<open>The loop \<^verbatim>\<open>while k < self.sStar\<close> of lines 175-204, with its inner
  \<^verbatim>\<open>if k < self.sStar\<close> and the \<^verbatim>\<open>else\<close> arm, whose \<^verbatim>\<open>chiSquareTerms.add\<close> does not
  exist on a list.\<close>

function term_loop :: "engine \<Rightarrow> real \<Rightarrow> nat \<Rightarrow> accum \<Rightarrow> pyerr + accum" where
  "term_loop e b0 k acc =
     (if k < sStar e then
        (if k < sStar e then
           ebind (array_get (sEigenValues e) k) (\<lambda>ev.
           ebind (mat_get (mzSq e) k 0) (\<lambda>delta.
             term_loop e b0 (k + 1) (add_term (b0 - ev) 1 delta acc)))
         else
           ebind (mat_get (mzSq e) k 0) (\<lambda>delta. Inl (AttributeError ''add'')))
      else Inr acc)"
  by pat_completeness auto
termination
  by (relation "measure (\<lambda>(e, b0, k, acc). sStar e - k)") auto

text \<open>
  What \<^verbatim>\<open>cdf\<close> hands back: a number; the pair that \<^verbatim>\<open>probf\<close> returns, where the code
  returns the call unchanged (line 216); or the object made by calling
  \<^verbatim>\<open>scipy.stats.f\<close> with three positional arguments (line 244), kept with its
  arguments.
\<close>

datatype cdf_value =
    Num real
  | ProbfResult "real \<times> constants"
  | FrozenF real real real

text \<open>The general case, lines 231-244: the exact solver, or the Satterthwaite
  approximation on the accumulated moments.\<close>

definition cdf_general :: "externals \<Rightarrow> engine \<Rightarrow> accum \<Rightarrow> pyerr + cdf_value" where
  "cdf_general ext e acc =
     (if exact e then Inr (Num (wsum_cdf ext (chiSquareTerms acc) 0.0 0.001 0))
      else
        ebind (np_div (2 * (m1Positive acc * m1Positive acc)) (m2Positive acc)) (\<lambda>nuStarPositive.
        ebind (np_div (2 * (m1Negative acc * m1Negative acc)) (m2Negative acc)) (\<lambda>nuStarNegative.
        ebind (np_div (m2Positive acc) (2 * m1Positive acc)) (\<lambda>lambdaStarPositive.
        ebind (np_div (m2Negative acc) (2 * m1Negative acc)) (\<lambda>lambdaStarNegative.
        ebind (np_div (nuStarNegative * lambdaStarNegative) (nuStarPositive * lambdaStarPositive))
          (\<lambda>x. Inr (FrozenF x nuStarPositive nuStarNegative)))))))"

text \<open>The special cases of lines 207-230; when neither inner condition of the
  one-positive/one-negative case holds, control falls through to the general case.\<close>

definition cdf_decide :: "externals \<Rightarrow> engine \<Rightarrow> real \<Rightarrow> accum \<Rightarrow> pyerr + cdf_value" where
  "cdf_decide ext e w acc =
     (if numNegative acc = 0 then Inr (Num 0)
      else if numPositive acc = 0 then Inr (Num 1)
      else if numNegative acc = 1 \<and> numPositive acc = 1 then
        (let Nstar = attr_N e - real (qF e) + real_of_int (attr_a e) - 1 in
         ebind (np_div w (Nstar * (H1 e - w))) (\<lambda>Fstar.
           if lastPositiveNoncentrality acc \<ge> 0 \<and> lastNegativeNoncentrality acc = 0 then
             Inr (ProbfResult (probf ext Fstar Nstar 1 (lastPositiveNoncentrality acc)))
           else if lastPositiveNoncentrality acc = 0 \<and> lastNegativeNoncentrality acc > 0 then
             ebind (np_div 1 Fstar) (\<lambda>rF.
               Inr (Num (1 - fst (probf ext rF 1 Nstar (lastNegativeNoncentrality acc)))))
           else cdf_general ext e acc))
      else cdf_general ext e acc)"

text \<open>The terms of lines 144-204: the base term with weight \<open>b0\<close>, then the loop.\<close>

definition cdf_terms :: "engine \<Rightarrow> real \<Rightarrow> pyerr + accum" where
  "cdf_terms e w =
     (let b0 = 1 - w / H1 e
      in term_loop e b0 0 (add_term b0 (attr_N e - real (qF e)) 0 accum0))"

text \<open>\<^verbatim>\<open>except Exception as e: ...; raise Exception(e)\<close>\<close>

definition reraise_wrapped :: "pyerr + 'a \<Rightarrow> pyerr + 'a" where
  "reraise_wrapped r = (case r of Inl err \<Rightarrow> Inl (Exception_of err) | Inr v \<Rightarrow> Inr v)"

definition cdf :: "externals \<Rightarrow> engine \<Rightarrow> real \<Rightarrow> pyerr + cdf_value" where
  "cdf ext e w =
     (if H1 e \<le> 0 \<or> w \<le> H0 e then Inr (Num 0)
      else if H1 e - w \<le> 0 then Inr (Num 1)
      else reraise_wrapped (ebind (cdf_terms e w) (cdf_decide ext e w)))"

section \<open>The quantile function\<close>

text \<open>
  \<^verbatim>\<open>scipy.optimize.bisect(f, a, b)\<close> as the library computes it, with its default
  \<open>xtol\<close>, \<open>rtol\<close> and \<open>maxiter\<close>: both ends are evaluated, a zero at an end is
  returned, equal signs are a \<^verbatim>\<open>ValueError\<close>, and each step halves the step width and
  moves the left end when the midpoint has the sign of the left end. An exception of
  \<open>f\<close> ends the search.
\<close>

fun bisect_loop ::
  "(real \<Rightarrow> pyerr + real) \<Rightarrow> real \<Rightarrow> real \<Rightarrow> nat \<Rightarrow> real \<Rightarrow> real \<Rightarrow> real \<Rightarrow> pyerr + real" where
  "bisect_loop f xtol rtol 0 xa fa dm = Inl (RuntimeError ''Failed to converge'')"
| "bisect_loop f xtol rtol (Suc n) xa fa dm =
     (let dm' = dm * 0.5; xm = xa + dm'
      in ebind (f xm) (\<lambda>fm.
           let xa' = (if fm * fa \<ge> 0 then xm else xa)
           in if fm = 0 \<or> \<bar>dm'\<bar> < xtol + rtol * \<bar>xm\<bar> then Inr xm
              else bisect_loop f xtol rtol n xa' fa dm'))"

definition bisect_xtol :: real where
  "bisect_xtol = 2 / 10 ^ 12"

definition bisect_rtol :: real where
  "bisect_rtol = 4 / 2 ^ 52"

definition bisect_maxiter :: nat where
  "bisect_maxiter = 100"

definition bisect :: "(real \<Rightarrow> pyerr + real) \<Rightarrow> real \<Rightarrow> real \<Rightarrow> pyerr + real" where
  "bisect f xa xb =
     ebind (f xa) (\<lambda>fa.
     ebind (f xb) (\<lambda>fb.
       if fa = 0 then Inr xa
       else if fb = 0 then Inr xb
       else if (fa < 0) = (fb < 0) then Inl (ValueError ''f(a) and f(b) must have different signs'')
       else bisect_loop f bisect_xtol bisect_rtol bisect_maxiter xa fa (xb - xa)))"

text \<open>\<^verbatim>\<open>quantFunc = lambda n: quantile - self.cdf(n)\<close>: the subtraction is defined when
  \<^verbatim>\<open>cdf\<close> returns a number.\<close>

definition quantFunc :: "externals \<Rightarrow> engine \<Rightarrow> real \<Rightarrow> real \<Rightarrow> pyerr + real" where
  "quantFunc ext e quantile n =
     ebind (cdf ext e n) (\<lambda>v.
       case v of
         Num p \<Rightarrow> Inr (quantile - p)
       | ProbfResult _ \<Rightarrow> Inl (TypeError ''unsupported operand type(s) for -: float and tuple'')
       | FrozenF _ _ _ \<Rightarrow> Inl (TypeError ''unsupported operand type(s) for -: float and rv_frozen''))"

text \<open>\<^verbatim>\<open>e.args[0]\<close> when it is a string.\<close>

fun error_message :: "pyerr \<Rightarrow> string option" where
  "error_message (Exception s) = Some s"
| "error_message (AttributeError s) = Some s"
| "error_message (TypeError s) = Some s"
| "error_message (ValueError s) = Some s"
| "error_message (IndexError s) = Some s"
| "error_message (ZeroDivisionError s) = Some s"
| "error_message (LinAlgError s) = Some s"
| "error_message (RuntimeError s) = Some s"
| "error_message (Exception_of _) = None"
| "error_message NonFinite = None"

text \<open>
  \<^verbatim>\<open>
  def inverseCDF(self, quantile):
      if self.H1 <= 0:
          return 0
      quantFunc = lambda n: quantile -  self.cdf(n)
      try:
          return optimize.bisect(quantFunc, self.H0, self.H1)
      except Exception as e:
          raise Exception("Failed to determine non-centrality quantile: " + e.args[0])
  \<close>
  The concatenation in the handler is itself a \<^verbatim>\<open>TypeError\<close> when \<^verbatim>\<open>e.args[0]\<close> is
  not a string.
\<close>

definition inverseCDF :: "externals \<Rightarrow> engine \<Rightarrow> real \<Rightarrow> pyerr + real" where
  "inverseCDF ext e quantile =
     (if H1 e \<le> 0 then Inr 0
      else case bisect (quantFunc ext e quantile) (H0 e) (H1 e) of
             Inr w \<Rightarrow> Inr w
           | Inl err \<Rightarrow>
               (case error_message err of
                  Some msg \<Rightarrow> Inl (Exception (''Failed to determine non-centrality quantile: '' @ msg))
                | None \<Rightarrow> (if err = NonFinite then Inl NonFinite
                           else Inl (TypeError ''can only concatenate str''))))"

section \<open>Exact linear algebra on diagonal matrices\<close>

text \<open>
  Concrete inputs need concrete library functions. On a diagonal matrix the inverse,
  the Cholesky factor and the eigen-decomposition are known in closed form: the
  reciprocals and the square roots of the diagonal, and the diagonal itself, in its own
  order, with the unit vectors. \<open>diag_externals\<close> computes these from the diagonal of
  its argument, and raises as numpy does for a singular matrix and for a matrix that is
  not positive definite. It is used on diagonal matrices only.
\<close>

definition diag_of :: "matrix \<Rightarrow> real list" where
  "diag_of m = map (\<lambda>i. m ! i ! i) [0..<length m]"

definition diag_inv :: "matrix \<Rightarrow> pyerr + matrix" where
  "diag_inv m =
     (if shape0 m \<noteq> shape1 m then Inl (LinAlgError ''Last 2 dimensions of the array must be square'')
      else if 0 \<in> set (diag_of m) then Inl (LinAlgError ''Singular matrix'')
      else Inr (build (length m) (length m) (\<lambda>i j. if i = j then 1 / (m ! i ! i) else 0)))"

definition diag_cholesky :: "matrix \<Rightarrow> pyerr + matrix" where
  "diag_cholesky m =
     (if shape0 m \<noteq> shape1 m then Inl (LinAlgError ''Last 2 dimensions of the array must be square'')
      else if list_ex (\<lambda>v. v \<le> 0) (diag_of m) then Inl (LinAlgError ''Matrix is not positive definite'')
      else Inr (build (length m) (length m) (\<lambda>i j. if i = j then sqrt (m ! i ! i) else 0)))"

definition diag_eigvals :: "matrix \<Rightarrow> pyerr + real list" where
  "diag_eigvals m =
     (if shape0 m \<noteq> shape1 m then Inl (LinAlgError ''Last 2 dimensions of the array must be square'')
      else Inr (diag_of m))"

definition diag_eig :: "matrix \<Rightarrow> pyerr + real list \<times> matrix" where
  "diag_eig m =
     (if shape0 m \<noteq> shape1 m then Inl (LinAlgError ''Last 2 dimensions of the array must be square'')
      else Inr (diag_of m, identity_m (length m)))"

definition diag_externals ::
  "scalar \<Rightarrow> (real \<Rightarrow> real \<Rightarrow> real \<Rightarrow> real \<Rightarrow> real \<times> constants) \<Rightarrow> externals" where
  "diag_externals hlt_value pf =
     \<lparr> HLT_value = hlt_value, linalg_inv = diag_inv, linalg_cholesky = diag_cholesky,
       linalg_eig = diag_eig, linalg_eigvals = diag_eigvals, probf = pf,
       wsum_cdf = (\<lambda>terms x y z. 0) \<rparr>"

text \<open>A stand-in for the tail-probability collaborator on concrete inputs, where only
  the shape of its result matters.\<close>

definition probf_stub :: "real \<Rightarrow> real \<Rightarrow> real \<Rightarrow> real \<Rightarrow> real \<times> constants" where
  "probf_stub fcrit df1 df2 noncen = (0, FMETHOD_NORMAL_LR)"

section \<open>Orderings of an eigenvalue sequence\<close>

definition ascending :: "real list \<Rightarrow> bool" where
  "ascending xs = sorted_wrt (\<lambda>x y. x \<le> y) xs"

definition descending :: "real list \<Rightarrow> bool" where
  "descending xs = sorted_wrt (\<lambda>x y. x \<ge> y) xs"

definition strictly_descending :: "real list \<Rightarrow> bool" where
  "strictly_descending xs = sorted_wrt (\<lambda>x y. x > y) xs"

section \<open>Facts about the matrix operations\<close>

declare term_loop.simps [simp del]

lemmas mat_defs = mat_mul_def mat_add_def build_def shape0_def shape1_def transpose_m_def
  tril_def triu_def bdim_def bidx_def smul_def trace_m_def identity_m_def flip1_def mat_get_def
  py_div_def np_div_def forceSymmetric_def ebind_def upt_conv_Cons Let_def

lemmas diag_defs = diag_externals_def diag_of_def diag_inv_def diag_cholesky_def
  diag_eigvals_def diag_eig_def

lemmas init_defs = initialize_def getSigmaStarInverse_def isPositiveDefinite_def
  lower_bound_def square_entries_def scaled_identity_def

lemmas cdf_defs = cdf_def cdf_terms_def cdf_decide_def cdf_general_def add_term_def accum0_def
  array_get_def reraise_wrapped_def

lemma length_build [simp]: "length (build r c f) = r"
  by (simp add: build_def)

lemma nth_build [simp]: "i < r \<Longrightarrow> build r c f ! i = map (f i) [0..<c]"
  by (simp add: build_def)

lemma shape0_build [simp]: "shape0 (build r c f) = r"
  by (simp add: shape0_def)

lemma shape1_build [simp]: "0 < r \<Longrightarrow> shape1 (build r c f) = c"
  by (simp add: shape1_def build_def upt_conv_Cons)

lemma shape1_build_square [simp]: "shape1 (build n n f) = n"
  by (cases "n = 0") (simp_all add: shape1_def build_def upt_conv_Cons)

lemma is_square_shape1: "is_square m \<Longrightarrow> shape1 m = length m"
  by (cases m) (simp_all add: is_square_def shape1_def)

lemma is_square_row: "is_square m \<Longrightarrow> i < length m \<Longrightarrow> length (m ! i) = length m"
  by (simp add: is_square_def list_all_length)

lemma is_square_build [simp]: "is_square (build n n f)"
  by (simp add: is_square_def list_all_length)

lemma forceSymmetric_square:
  assumes "is_square m"
  shows "forceSymmetric m =
           Inr (build (length m) (length m) (\<lambda>i j. if j \<le> i then m ! i ! j else m ! j ! i))"
proof -
  let ?n = "length m"
  have s1: "shape1 m = ?n" using assms by (rule is_square_shape1)
  have "forceSymmetric m =
          Inr (build ?n ?n (\<lambda>i j. tril m ! bidx ?n i ! bidx ?n j
                                   + triu (transpose_m m) 1 ! bidx ?n i ! bidx ?n j))"
    by (simp add: forceSymmetric_def mat_add_def tril_def triu_def transpose_m_def
        shape0_def s1 bdim_def)
  also have "build ?n ?n (\<lambda>i j. tril m ! bidx ?n i ! bidx ?n j
                                   + triu (transpose_m m) 1 ! bidx ?n i ! bidx ?n j)
             = build ?n ?n (\<lambda>i j. if j \<le> i then m ! i ! j else m ! j ! i)"
    unfolding build_def
    by (auto simp: tril_def triu_def transpose_m_def shape0_def s1 bidx_def)
  finally show ?thesis .
qed

text \<open>
  C9. For every square matrix \<open>m\<close>, \<open>forceSymmetric m\<close> returns a matrix \<open>r\<close> that is
  equal to its own transpose, has the shape of \<open>m\<close>, and agrees with \<open>m\<close> on and below
  the diagonal.
\<close>

theorem forceSymmetric_symmetric_lower:
  assumes "is_square m"
  shows "\<exists>r. forceSymmetric m = Inr r \<and> is_square r \<and> length r = length m
             \<and> transpose_m r = r
             \<and> tril r = tril m
             \<and> (\<forall>i < length m. \<forall>j \<le> i. r ! i ! j = m ! i ! j)"
proof -
  let ?n = "length m"
  let ?r = "build ?n ?n (\<lambda>i j. if j \<le> i then m ! i ! j else m ! j ! i)"
  have r: "forceSymmetric m = Inr ?r" using assms by (rule forceSymmetric_square)
  have s1: "shape1 m = ?n" using assms by (rule is_square_shape1)
  have "transpose_m ?r = build ?n ?n (\<lambda>i j. ?r ! j ! i)"
    by (simp add: transpose_m_def)
  also have "\<dots> = ?r"
    by (auto simp: build_def)
  finally have t: "transpose_m ?r = ?r" .
  have "tril ?r = build ?n ?n (\<lambda>i j. if j \<le> i then ?r ! i ! j else 0)"
    by (simp add: tril_def)
  also have "\<dots> = tril m"
    by (auto simp: tril_def build_def shape0_def s1)
  finally have l: "tril ?r = tril m" .
  have e: "\<forall>i < ?n. \<forall>j \<le> i. ?r ! i ! j = m ! i ! j"
    by simp
  from r t l e show ?thesis by simp
qed

theorem forceSymmetric_symmetric_lower_witness:
  "is_square [[1, 2], [3, 4]] \<and>
   forceSymmetric [[1, 2], [3, 4]] = Inr [[1, 3], [3, 4]]"
proof -
  have sq: "is_square [[1, 2], [3, 4 :: real]]" by (simp add: is_square_def)
  from forceSymmetric_symmetric_lower [OF sq]
  obtain r where r: "forceSymmetric [[1, 2], [3, 4]] = Inr r" by blast
  have "forceSymmetric [[1, 2], [3, 4]] = Inr [[1, 3], [3, 4]]"
    by (simp add: forceSymmetric_def mat_add_def tril_def triu_def transpose_m_def
        build_def shape0_def shape1_def bdim_def bidx_def upt_conv_Cons)
  with sq show ?thesis by simp
qed

section \<open>The error monad and the construction\<close>

lemma ebind_Inr_iff: "ebind x f = Inr y \<longleftrightarrow> (\<exists>v. x = Inr v \<and> f v = Inr y)"
  by (cases x) (simp_all add: ebind_def)

lemma ebind_Inl [simp]: "ebind (Inl err) f = Inl err"
  by (simp add: ebind_def)

lemma ebind_Inr [simp]: "ebind (Inr v) f = f v"
  by (simp add: ebind_def)

lemma isl_ebindI: "(\<And>v. x = Inr v \<Longrightarrow> isl (f v)) \<Longrightarrow> isl (ebind x f)"
  by (cases x) simp_all

lemma count_positive_filter: "count_positive vs n = n + length (filter (\<lambda>v. v > 0) vs)"
  by (induction vs arbitrary: n) simp_all

lemma initialize_Inr:
  assumes "initialize ext test FEssence perGroupN Cfixed CGaussian thetaDiff sigmaStar stddevG ex = Inr e"
  shows "\<exists>evs vecs sinv.
           linalg_eig ext (attr_S e) = Inr (evs, vecs)
         \<and> getSigmaStarInverse ext [] sigmaStar test = Inr (sinv, errors e)
         \<and> sEigenValues e = rev evs
         \<and> sStar e = count_positive (sEigenValues e) 0
         \<and> H0 e = lower_bound (H1 e) (sEigenValues e)"
  using assms
  unfolding initialize_def
  by (auto simp: ebind_Inr_iff Let_def split: prod.splits)

section \<open>C1: the inverse form of sigma\_star\<close>

text \<open>
  C1. The claim: \<open>getSigmaStarInverse\<close> returns the inverse of \<open>sigma_star\<close> for
  Hotelling-Lawley-Trace and the scalar multiple of the identity for the UNIREP tests.
  The condition of the source is \<^verbatim>\<open>test == Constants.HLT or Constants.HLT.value\<close>:
  whenever the value of \<^verbatim>\<open>Constants.HLT\<close> is truthy, every test takes the first branch
  and gets the direct inverse. The theorem states this for every truthy value, every test
  and every matrix.
\<close>

theorem getSigmaStarInverse_truthy_value_inverts:
  assumes "truthy (HLT_value ext)"
  shows "getSigmaStarInverse ext errs sigma_star test =
           ebind (isPositiveDefinite ext sigma_star) (\<lambda>pd.
             ebind (linalg_inv ext sigma_star) (\<lambda>r.
               Inr (r, if \<not> pd then errs @ [ERR_NOT_POSITIVE_DEFINITE] else errs)))"
  using assms by (simp add: getSigmaStarInverse_def Let_def)

theorem getSigmaStarInverse_truthy_value_inverts_witness:
  "truthy (HLT_value (diag_externals (SInt 1) probf_stub)) \<and>
   getSigmaStarInverse (diag_externals (SInt 1) probf_stub) [] [[2, 0], [0, 1]] UN_uncorrected
     = Inr ([[1 / 2, 0], [0, 1]], []) \<and>
   getSigmaStarInverse (diag_externals (SInt 0) probf_stub) [] [[2, 0], [0, 1]] UN_uncorrected
     = Inr ([[3 / 5, 0], [0, 3 / 5]], [])"
proof -
  have t: "truthy (HLT_value (diag_externals (SInt 1) probf_stub))"
    by (simp add: diag_externals_def)
  have "getSigmaStarInverse (diag_externals (SInt 1) probf_stub) [] [[2, 0], [0, 1]] UN_uncorrected
     = Inr ([[1 / 2, 0], [0, 1]], [])"
    unfolding getSigmaStarInverse_truthy_value_inverts [OF t]
    by (simp add: isPositiveDefinite_def mat_defs diag_defs)
  moreover have "getSigmaStarInverse (diag_externals (SInt 0) probf_stub) [] [[2, 0], [0, 1]] UN_uncorrected
     = Inr ([[3 / 5, 0], [0, 3 / 5]], [])"
    by (simp add: init_defs mat_defs diag_defs)
  ultimately show ?thesis using t by simp
qed

lemma getSigmaStarInverse_HLT:
  "getSigmaStarInverse ext errs sigma_star HLT =
           ebind (isPositiveDefinite ext sigma_star) (\<lambda>pd.
             ebind (linalg_inv ext sigma_star) (\<lambda>r.
               Inr (r, if \<not> pd then errs @ [ERR_NOT_POSITIVE_DEFINITE] else errs)))"
  by (simp add: getSigmaStarInverse_def Let_def)

lemma getSigmaStarInverse_else_branch:
  assumes "\<not> truthy (HLT_value ext)" and "test \<noteq> HLT"
    and "isPositiveDefinite ext sigma_star = Inr pd"
    and "mat_mul sigma_star sigma_star = Inr sq"
    and "trace_m sigma_star \<noteq> 0" and "real (shape1 sigma_star) * trace_m sq \<noteq> 0"
  shows "getSigmaStarInverse ext errs sigma_star test =
           Inr (map (map (\<lambda>v. v * real (shape1 sigma_star)
                                 * (trace_m sigma_star * trace_m sigma_star
                                     / (real (shape1 sigma_star) * trace_m sq))
                                 / trace_m sigma_star))
                  (identity_m (shape1 sigma_star)),
                if \<not> pd then errs @ [ERR_NOT_POSITIVE_DEFINITE] else errs)"
  using assms by (simp add: getSigmaStarInverse_def Let_def np_div_def scaled_identity_def)

section \<open>C2: the stored eigenvalues\<close>

lemma ascending_pair [simp]: "ascending [x, y] = (x \<le> y)"
  by (simp add: ascending_def)

lemma descending_pair [simp]: "descending [x, y] = (x \<ge> y)"
  by (simp add: descending_def)

lemma strictly_descending_pair [simp]: "strictly_descending [x, y] = (x > y)"
  by (simp add: strictly_descending_def)

text \<open>What construction stores, for every eigen-solver: its output for \<open>S\<close> in
  reverse order, and the number of strictly positive stored eigenvalues.\<close>

lemma initialize_stored_eigenvalues:
  assumes "initialize ext test FEssence perGroupN Cfixed CGaussian thetaDiff sigmaStar stddevG ex = Inr e"
  shows "\<exists>evs vecs. linalg_eig ext (attr_S e) = Inr (evs, vecs)
           \<and> sEigenValues e = rev evs
           \<and> sStar e = length (filter (\<lambda>v. v > 0) (sEigenValues e))"
proof -
  from initialize_Inr [OF assms] obtain evs vecs where
    "linalg_eig ext (attr_S e) = Inr (evs, vecs)" and
    "sEigenValues e = rev evs" and
    "sStar e = count_positive (sEigenValues e) 0"
    by blast
  then show ?thesis by (simp add: count_positive_filter)
qed

text \<open>With identity matrices for the design, the contrasts, the effect and the
  covariance, \<open>S\<close> is one half of the identity: the eigenvalues are \<open>1/2, 1/2\<close>, and no
  order of them is strict.\<close>

lemma initialize_repeated_eigenvalues:
  "map_sum id sEigenValues
     (initialize (diag_externals (SInt 1) probf_stub) HLT [[1, 0], [0, 1]] 4 [[1, 0], [0, 1]]
        [[1], [1]] [[1, 0], [0, 1]] [[1, 0], [0, 1]] 1 False) = Inr [1 / 2, 1 / 2]
   \<and> \<not> strictly_descending [1 / 2, 1 / 2]"
  by (simp add: init_defs mat_defs diag_defs)

text \<open>
  C2. The claim: after construction \<open>sEigenValues\<close> is in strictly descending order and
  \<open>sStar\<close> counts the strictly positive eigenvalues. The source reverses what
  \<^verbatim>\<open>np.linalg.eig\<close> returns and never sorts. With identity matrices for the design, the
  contrasts and the effect, and the positive definite covariance \<open>diag(1, 2)\<close>, \<open>S\<close> is
  \<open>diag(2/3, 1/3)\<close>; the solver returns \<open>2/3, 1/3\<close>, and the stored sequence is
  \<open>1/3, 2/3\<close>: ascending, not descending.
\<close>

theorem initialize_stores_ascending_eigenvalues:
  "linalg_eig (diag_externals hv pf) [[2 / 3, 0], [0, 1 / 3]]
     = Inr ([2 / 3, 1 / 3], [[1, 0], [0, 1]])
   \<and> map_sum id (\<lambda>e. (attr_S e, sEigenValues e, sStar e, errors e))
       (initialize (diag_externals hv pf) HLT [[1, 0], [0, 1]] 1 [[1, 0], [0, 1]]
          [[1], [1]] [[1, 0], [0, 1]] [[1, 0], [0, 2]] 1 False)
     = Inr ([[2 / 3, 0], [0, 1 / 3]], [1 / 3, 2 / 3], 2, [])
   \<and> \<not> descending [1 / 3, 2 / 3]
   \<and> \<not> strictly_descending [1 / 3, 2 / 3]"
proof -
  have g: "linalg_eig (diag_externals hv pf) [[2 / 3, 0], [0, 1 / 3]]
             = Inr ([2 / 3, 1 / 3], [[1, 0], [0, 1]])"
    by (simp add: mat_defs diag_defs)
  have i: "map_sum id (\<lambda>e. (attr_S e, sEigenValues e, sStar e, errors e))
       (initialize (diag_externals hv pf) HLT [[1, 0], [0, 1]] 1 [[1, 0], [0, 1]]
          [[1], [1]] [[1, 0], [0, 1]] [[1, 0], [0, 2]] 1 False)
     = Inr ([[2 / 3, 0], [0, 1 / 3]], [1 / 3, 2 / 3], 2, [])"
    by (simp add: init_defs mat_defs diag_defs)
  have d: "\<not> descending [1 / 3, 2 / 3 :: real]" by simp
  have sd: "\<not> strictly_descending [1 / 3, 2 / 3 :: real]" by simp
  from g i d sd show ?thesis by blast
qed

section \<open>C4: the lower support bound\<close>

lemma descending_hd_Max:
  assumes "descending xs" and "xs \<noteq> []"
  shows "xs ! 0 = Max (set xs)"
proof -
  from assms(2) obtain x ys where xs: "xs = x # ys" by (cases xs) auto
  with assms(1) have "\<forall>y \<in> set ys. y \<le> x" by (simp add: descending_def)
  then have "Max (set (x # ys)) = x" by (intro Max_eqI) auto
  with xs show ?thesis by simp
qed

lemma ascending_rev_hd_Max:
  assumes "ascending evs" and "evs \<noteq> []"
  shows "rev evs ! 0 = Max (set evs)"
proof -
  have "descending (rev evs)"
    using assms(1) by (simp add: ascending_def descending_def sorted_wrt_rev)
  moreover have "rev evs \<noteq> []" using assms(2) by simp
  ultimately have "rev evs ! 0 = Max (set (rev evs))" by (rule descending_hd_Max)
  then show ?thesis by simp
qed

text \<open>When the eigen-solver does return ascending order, the first stored eigenvalue
  is the largest and \<open>H0\<close> is the clamped product.\<close>

lemma lower_support_bound_ascending:
  assumes init: "initialize ext test FEssence perGroupN Cfixed CGaussian thetaDiff sigmaStar stddevG ex = Inr e"
    and eig: "linalg_eig ext (attr_S e) = Inr (evs, vecs)"
    and nonempty: "evs \<noteq> []"
    and asc: "ascending evs"
  shows "H0 e = max 0 (H1 e * (1 - Max (set evs)))"
proof -
  from initialize_Inr [OF init] eig
  have st: "sEigenValues e = rev evs" and h0: "H0 e = lower_bound (H1 e) (sEigenValues e)"
    by auto
  have "rev evs ! 0 = Max (set evs)" using asc nonempty by (rule ascending_rev_hd_Max)
  with st h0 show ?thesis
    using nonempty by (simp add: lower_bound_def Let_def max_def)
qed

text \<open>The two invariants do not depend on the order: \<open>H0\<close> is never negative, and it
  is at most \<open>H1\<close> when \<open>H1\<close> and the first stored eigenvalue are non-negative.\<close>

lemma lower_bound_nonneg: "0 \<le> lower_bound h1 evs"
  by (simp add: lower_bound_def Let_def)

lemma lower_bound_le:
  assumes "0 \<le> h1" and "evs \<noteq> [] \<Longrightarrow> 0 \<le> evs ! 0"
  shows "lower_bound h1 evs \<le> h1"
proof (cases "evs = []")
  case True
  with assms(1) show ?thesis by (simp add: lower_bound_def Let_def)
next
  case False
  with assms(2) have "0 \<le> evs ! 0" by simp
  with assms(1) have "h1 * (1 - evs ! 0) \<le> h1 * 1" by (intro mult_left_mono) auto
  with assms(1) False show ?thesis by (simp add: lower_bound_def Let_def)
qed

lemma initialize_H0_invariants:
  assumes init: "initialize ext test FEssence perGroupN Cfixed CGaussian thetaDiff sigmaStar stddevG ex = Inr e"
    and h1: "0 \<le> H1 e"
    and psd: "sEigenValues e \<noteq> [] \<Longrightarrow> 0 \<le> sEigenValues e ! 0"
  shows "0 \<le> H0 e \<and> H0 e \<le> H1 e"
proof -
  from initialize_Inr [OF init] have "H0 e = lower_bound (H1 e) (sEigenValues e)" by blast
  with lower_bound_nonneg [of "H1 e" "sEigenValues e"] lower_bound_le [OF h1 psd]
  show ?thesis by simp
qed

text \<open>
  C4. The claim: \<open>H0\<close> is \<open>H1 * (1 - largest eigenvalue of S)\<close> clamped to 0, with
  \<open>0 \<le> H0 \<le> H1\<close>. The source takes \<^verbatim>\<open>self.sEigenValues[0]\<close>, the last eigenvalue
  the solver returned, which is the largest only when the solver's order is ascending. On
  the construction of C2 (covariance \<open>diag(1, 2)\<close>) the eigenvalues of \<open>S\<close> are
  \<open>2/3, 1/3\<close> and \<open>H1 = 3/2\<close>: the stored \<open>H0\<close> is \<open>3/2 * (1 - 1/3) = 1\<close>, while
  \<open>H1 * (1 - largest eigenvalue)\<close> is \<open>1/2\<close>. The two invariants hold there.
\<close>

theorem initialize_lower_bound_not_largest:
  "map_sum id (\<lambda>e. (H0 e, H1 e, sEigenValues e))
       (initialize (diag_externals hv pf) HLT [[1, 0], [0, 1]] 1 [[1, 0], [0, 1]]
          [[1], [1]] [[1, 0], [0, 1]] [[1, 0], [0, 2]] 1 False)
     = Inr (1, 3 / 2, [1 / 3, 2 / 3])
   \<and> Max (set [1 / 3, 2 / 3 :: real]) = 2 / 3
   \<and> max 0 (3 / 2 * (1 - 2 / 3)) = (1 / 2 :: real)
   \<and> (1 :: real) \<noteq> 1 / 2"
proof -
  have i: "map_sum id (\<lambda>e. (H0 e, H1 e, sEigenValues e))
       (initialize (diag_externals hv pf) HLT [[1, 0], [0, 1]] 1 [[1, 0], [0, 1]]
          [[1], [1]] [[1, 0], [0, 1]] [[1, 0], [0, 2]] 1 False)
     = Inr (1, 3 / 2, [1 / 3, 2 / 3])"
    by (simp add: init_defs mat_defs diag_defs)
  have m: "Max (set [1 / 3, 2 / 3 :: real]) = 2 / 3" by simp
  have c: "max 0 (3 / 2 * (1 - 2 / 3)) = (1 / 2 :: real)" by simp
  have n: "(1 :: real) \<noteq> 1 / 2" by simp
  from i m c n show ?thesis by blast
qed

section \<open>C8 and C10: a covariance that is not positive definite, or not square\<close>

text \<open>
  C8, counterexample. The 1 x 1 covariance \<open>[[0]]\<close> has the eigenvalue 0; the check
  finds it not positive definite, and then the inversion of the singular matrix raises:
  construction throws, and no engine with an error list is returned.
\<close>

theorem initialize_singular_sigma_raises:
  "isPositiveDefinite (diag_externals (SInt 1) probf_stub) [[0]] = Inr False
   \<and> initialize (diag_externals (SInt 1) probf_stub) HLT [[1]] 4 [[1]] [[0]] [[1]] [[0]] 1 False
       = Inl (LinAlgError ''Singular matrix'')"
  by (simp add: init_defs mat_defs diag_defs)

text \<open>
  C8, amended. For every square \<open>sigma_star\<close> with a zero or negative eigenvalue,
  whenever construction returns an engine, the engine's error list is exactly the
  not-positive-definite error (appended, not thrown).
\<close>

theorem initialize_records_not_positive_definite:
  assumes sq: "shape0 sigmaStar = shape1 sigmaStar"
    and ev: "linalg_eigvals ext sigmaStar = Inr eigenvalues"
    and np: "list_ex (\<lambda>val. val \<le> 0) eigenvalues"
    and init: "initialize ext test FEssence perGroupN Cfixed CGaussian thetaDiff sigmaStar stddevG ex = Inr e"
  shows "errors e = [ERR_NOT_POSITIVE_DEFINITE]"
proof -
  from np have "\<not> list_all (\<lambda>val. val > 0) eigenvalues"
    by (auto simp: list_ex_iff list_all_iff not_less)
  with sq ev have pd: "isPositiveDefinite ext sigmaStar = Inr False"
    by (simp add: isPositiveDefinite_def)
  from initialize_Inr [OF init] obtain sinv where
    "getSigmaStarInverse ext [] sigmaStar test = Inr (sinv, errors e)" by blast
  with pd show ?thesis
    by (auto simp: getSigmaStarInverse_def ebind_Inr_iff Let_def split: if_splits)
qed

theorem initialize_records_not_positive_definite_witness:
  "shape0 [[-1]] = shape1 [[-1]]
   \<and> linalg_eigvals (diag_externals (SInt 1) probf_stub) [[-1]] = Inr [-1]
   \<and> list_ex (\<lambda>val. val \<le> 0) [-1 :: real]
   \<and> initialize (diag_externals (SInt 1) probf_stub) HLT [[1]] 4 [[1]] [[0]] [[1]] [[-1]] 1 False
       = Inr \<lparr>T1 = [[4]], FT1 = [[2]], attr_S = [[1]], mzSq = [[0]], H1 = - 4,
              H0 = 0, qF = 1, attr_a = 0, attr_N = 4, sEigenValues = [1],
              sStar = 1, exact = False, errors = [ERR_NOT_POSITIVE_DEFINITE]\<rparr>"
proof -
  let ?ext = "diag_externals (SInt 1) probf_stub"
  let ?e = "\<lparr>T1 = [[4]], FT1 = [[2]], attr_S = [[1]], mzSq = [[0]], H1 = - 4,
              H0 = 0, qF = 1, attr_a = 0, attr_N = 4, sEigenValues = [1],
              sStar = 1, exact = False, errors = [ERR_NOT_POSITIVE_DEFINITE]\<rparr>"
  have sq: "shape0 [[-1]] = shape1 [[-1]]" by (simp add: shape0_def shape1_def)
  have ev: "linalg_eigvals ?ext [[-1]] = Inr [-1]" by (simp add: mat_defs diag_defs)
  have np: "list_ex (\<lambda>val. val \<le> 0) [-1 :: real]" by simp
  have i: "initialize ?ext HLT [[1]] 4 [[1]] [[0]] [[1]] [[-1]] 1 False = Inr ?e"
    by (simp add: init_defs mat_defs diag_defs)
  from initialize_records_not_positive_definite [OF sq ev np i]
  have "errors ?e = [ERR_NOT_POSITIVE_DEFINITE]" .
  with sq ev np i show ?thesis by simp
qed

text \<open>
  C10. For every non-square matrix \<open>m\<close>, \<open>isPositiveDefinite m\<close> raises, so does
  \<open>getSigmaStarInverse\<close> before it can append to the error list, and constructing the
  engine with \<open>m\<close> as \<open>sigma_star\<close> raises instead of returning an engine.
\<close>

theorem non_square_sigma_raises:
  assumes "shape0 m \<noteq> shape1 m"
  shows "isPositiveDefinite ext m = Inl (Exception ''Matrix must be non-null, square'')
       \<and> getSigmaStarInverse ext errs m test = Inl (Exception ''Matrix must be non-null, square'')
       \<and> isl (initialize ext test FEssence perGroupN Cfixed CGaussian thetaDiff m stddevG ex)"
proof -
  have pd: "isPositiveDefinite ext m = Inl (Exception ''Matrix must be non-null, square'')"
    using assms by (simp add: isPositiveDefinite_def)
  then have g: "\<And>errs test. getSigmaStarInverse ext errs m test
                  = Inl (Exception ''Matrix must be non-null, square'')"
    by (simp add: getSigmaStarInverse_def)
  have "isl (initialize ext test FEssence perGroupN Cfixed CGaussian thetaDiff m stddevG ex)"
    unfolding initialize_def
    by (intro isl_ebindI) (simp add: g)
  with pd g show ?thesis by simp
qed

theorem non_square_sigma_raises_witness:
  "shape0 [[1, 2]] \<noteq> shape1 [[1, 2]]
   \<and> initialize (diag_externals (SInt 1) probf_stub) HLT [[1]] 4 [[1]] [[0]] [[1]] [[1, 2]] 1 False
       = Inl (Exception ''Matrix must be non-null, square'')"
proof -
  have ns: "shape0 [[1, 2]] \<noteq> shape1 [[1, 2]]" by (simp add: shape0_def shape1_def)
  from non_square_sigma_raises [OF ns]
  have "getSigmaStarInverse (diag_externals (SInt 1) probf_stub) [] [[1, 2]] HLT
          = Inl (Exception ''Matrix must be non-null, square'')" by blast
  then have "initialize (diag_externals (SInt 1) probf_stub) HLT [[1]] 4 [[1]] [[0]] [[1]] [[1, 2]] 1 False
       = Inl (Exception ''Matrix must be non-null, square'')"
    by (simp add: initialize_def mat_defs diag_defs)
  with ns show ?thesis by simp
qed

section \<open>C7: the mutators\<close>

lemma call_initialize_arity:
  "length args \<noteq> 9 \<Longrightarrow>
     call_initialize ext args = Inl (TypeError ''initialize() takes 10 positional arguments'')"
  by (simp add: call_initialize_def)

lemma engine_getattr_test: "engine_getattr e ''test'' = Inl (AttributeError ''test'')"
  by (simp add: engine_getattr_def method_names_def)

text \<open>
  C7. The claim: \<open>setPerGroupSampleSize\<close> and \<open>setBeta\<close> recompute all derived state
  from the stored model inputs. The engine stores no model input: the first argument of
  the call, \<^verbatim>\<open>self.test\<close>, is an attribute that neither \<^verbatim>\<open>initialize\<close> nor the class
  defines, so for every engine and every argument both mutators raise
  \<^verbatim>\<open>AttributeError\<close> before \<^verbatim>\<open>initialize\<close> is called.
\<close>

theorem mutators_raise:
  "setPerGroupSampleSize ext e perGroupN = Inl (AttributeError ''test'')
   \<and> setBeta ext e beta = Inl (AttributeError ''test'')"
  by (simp add: setPerGroupSampleSize_def setBeta_def engine_getattr_test)

text \<open>Even with every attribute present the call could not succeed: it passes twelve
  positional arguments to a method that takes nine.\<close>

lemma eval_args_length: "eval_args xs = Inr vs \<Longrightarrow> length vs = length xs"
  by (induction xs arbitrary: vs) (auto simp: ebind_Inr_iff)

lemma mutators_never_succeed:
  "isl (ebind (eval_args [a1, a2, a3, a4, a5, a6, a7, a8, a9, a10, a11, a12]) (call_initialize ext))"
proof (rule isl_ebindI)
  fix vs assume "eval_args [a1, a2, a3, a4, a5, a6, a7, a8, a9, a10, a11, a12] = Inr vs"
  from eval_args_length [OF this] have "length vs = 12" by simp
  then show "isl (call_initialize ext vs)" by (simp add: call_initialize_arity)
qed

section \<open>Facts about the accumulated terms\<close>

text \<open>The base term has a positive weight whenever \<open>cdf\<close> gets past its boundary
  tests, so a sole positive term is the base term, which is central.\<close>

lemma add_term_positive:
  "numPositive acc \<le> numPositive (add_term lam nu delta acc) \<and>
   (numPositive (add_term lam nu delta acc) = numPositive acc \<longrightarrow>
      lastPositiveNoncentrality (add_term lam nu delta acc) = lastPositiveNoncentrality acc)"
  by (simp add: add_term_def Let_def)

lemma term_loop_positive:
  "term_loop e b0 k acc = Inr acc' \<Longrightarrow>
     numPositive acc \<le> numPositive acc' \<and>
     (numPositive acc' = numPositive acc \<longrightarrow>
        lastPositiveNoncentrality acc' = lastPositiveNoncentrality acc)"
proof (induction e b0 k acc rule: term_loop.induct)
  case (1 e b0 k acc)
  show ?case
  proof (cases "k < sStar e")
    case False
    with "1.prems" show ?thesis by (simp add: term_loop.simps)
  next
    case True
    with "1.prems" obtain ev delta where
      rest: "term_loop e b0 (k + 1) (add_term (b0 - ev) 1 delta acc) = Inr acc'"
      by (subst (asm) term_loop.simps) (auto simp: ebind_Inr_iff)
    from "1.IH" [OF True True rest] add_term_positive [of acc "b0 - ev" 1 delta]
    show ?thesis by auto
  qed
qed

lemma cdf_terms_sole_positive_central:
  assumes "cdf_terms e w = Inr acc" and "0 < H1 e" and "w < H1 e" and "numPositive acc = 1"
  shows "lastPositiveNoncentrality acc = 0"
proof -
  let ?b0 = "1 - w / H1 e"
  let ?a0 = "add_term ?b0 (attr_N e - real (qF e)) 0 accum0"
  have pos: "0 < ?b0" using assms(2,3) by simp
  have a0: "numPositive ?a0 = 1 \<and> lastPositiveNoncentrality ?a0 = 0"
    using pos by (simp add: add_term_def accum0_def Let_def)
  from assms(1) have "term_loop e ?b0 0 ?a0 = Inr acc"
    by (simp add: cdf_terms_def Let_def)
  from term_loop_positive [OF this] a0 assms(4) show ?thesis by simp
qed

lemma cdf_general_not_exact:
  assumes "\<not> exact e" and "cdf_general ext e acc = Inr v"
  shows "\<exists>x n1 n2. v = FrozenF x n1 n2"
  using assms by (auto simp: cdf_general_def ebind_Inr_iff)

section \<open>C3, C5 and C6: the distribution function and its inverse\<close>

text \<open>
  C3. The claim: \<open>cdf\<close> returns a single number in every branch. In the
  one-positive/one-negative branch with a central negative term, the source returns the
  call of \<^verbatim>\<open>probf\<close> unchanged, which is the pair of a probability and a method tag (the
  sibling branch unpacks it: \<^verbatim>\<open>prob, method = probf(...)\<close>). The engine below is constructed
  from 1 x 1 inputs with \<open>CGaussian = [[0]]\<close> and queried at \<open>w = 2\<close>.
\<close>

theorem cdf_returns_probf_pair:
  "ebind (initialize (diag_externals hv pf) HLT [[1]] 4 [[1]] [[0]] [[1]] [[1]] 1 False)
     (\<lambda>e. cdf (diag_externals hv pf) e 2) = Inr (ProbfResult (pf (1 / 2) 2 1 0))"
proof -
  let ?e = "\<lparr>T1 = [[4]], FT1 = [[2]], attr_S = [[1]], mzSq = [[0]], H1 = 4, H0 = 0, qF = 1,
             attr_a = 0, attr_N = 4, sEigenValues = [1], sStar = 1, exact = False,
             errors = []\<rparr>"
  have i: "initialize (diag_externals hv pf) HLT [[1]] 4 [[1]] [[0]] [[1]] [[1]] 1 False = Inr ?e"
    by (simp add: init_defs mat_defs diag_defs)
  have c: "cdf (diag_externals hv pf) ?e 2 = Inr (ProbfResult (pf (1 / 2) 2 1 0))"
    by (simp add: cdf_defs mat_defs term_loop.simps diag_externals_def)
  show ?thesis unfolding i ebind_Inr by (rule c)
qed

text \<open>In the one-positive/one-negative case with a central negative term the result is
  never a number: the quotient \<open>Fstar\<close> is handed to \<^verbatim>\<open>probf\<close> and the pair comes back
  (or, in the model, the quotient is not finite).\<close>

lemma cdf_central_negative_not_number:
  assumes "0 < H1 e" and "H0 e < w" and "w < H1 e"
    and "cdf_terms e w = Inr acc"
    and "numPositive acc = 1" and "numNegative acc = 1"
    and "lastNegativeNoncentrality acc = 0"
  shows "lastPositiveNoncentrality acc = 0 \<and> cdf ext e w \<noteq> Inr (Num p)"
proof -
  have lp: "lastPositiveNoncentrality acc = 0"
    using assms(4) assms(1) assms(3) assms(5) by (rule cdf_terms_sole_positive_central)
  have "cdf ext e w \<noteq> Inr (Num p)"
    using assms lp
    by (simp add: cdf_def cdf_decide_def reraise_wrapped_def np_div_def Let_def)
  with lp show ?thesis by simp
qed


text \<open>The degenerate case of \<open>inverseCDF\<close>: \<open>H1 \<le> 0\<close> returns 0 at once.\<close>

lemma inverseCDF_degenerate: "H1 e \<le> 0 \<Longrightarrow> inverseCDF ext e quantile = Inr 0"
  by (simp add: inverseCDF_def)

text \<open>
  C6. The claim: for \<open>H1 > 0\<close>, \<open>inverseCDF q\<close> returns a \<open>w\<close> found by bisection with
  \<open>cdf w\<close> within the tolerance of \<open>q\<close>. On the engine of C3 the bisection evaluates
  \<open>cdf\<close> at the midpoint 2, gets the pair of \<^verbatim>\<open>probf\<close>, and the subtraction
  \<^verbatim>\<open>quantile - self.cdf(n)\<close> raises: \<open>inverseCDF (1/2)\<close> raises instead of returning.
\<close>

theorem inverseCDF_raises_on_probf_pair:
  "ebind (initialize (diag_externals hv pf) HLT [[1]] 4 [[1]] [[0]] [[1]] [[1]] 1 False)
     (\<lambda>e. inverseCDF (diag_externals hv pf) e (1 / 2))
   = Inl (Exception ''Failed to determine non-centrality quantile: unsupported operand type(s) for -: float and tuple'')"
proof -
  let ?ext = "diag_externals hv pf"
  let ?e = "\<lparr>T1 = [[4]], FT1 = [[2]], attr_S = [[1]], mzSq = [[0]], H1 = 4, H0 = 0, qF = 1,
             attr_a = 0, attr_N = 4, sEigenValues = [1], sStar = 1, exact = False,
             errors = []\<rparr>"
  have i: "initialize ?ext HLT [[1]] 4 [[1]] [[0]] [[1]] [[1]] 1 False = Inr ?e"
    by (simp add: init_defs mat_defs diag_defs)
  have c0: "quantFunc ?ext ?e (1 / 2) 0 = Inr (1 / 2)"
    by (simp add: quantFunc_def cdf_def)
  have c4: "quantFunc ?ext ?e (1 / 2) 4 = Inr (- (1 / 2))"
    by (simp add: quantFunc_def cdf_def)
  have c2: "quantFunc ?ext ?e (1 / 2) 2
              = Inl (TypeError ''unsupported operand type(s) for -: float and tuple'')"
    by (simp add: quantFunc_def cdf_defs mat_defs term_loop.simps diag_externals_def)
  have b: "bisect (quantFunc ?ext ?e (1 / 2)) 0 4
             = Inl (TypeError ''unsupported operand type(s) for -: float and tuple'')"
    using c0 c4 c2 by (simp add: bisect_def bisect_maxiter_def eval_nat_numeral Let_def)
  have "inverseCDF ?ext ?e (1 / 2)
   = Inl (Exception ''Failed to determine non-centrality quantile: unsupported operand type(s) for -: float and tuple'')"
    using b by (simp add: inverseCDF_def)
  then show ?thesis unfolding i ebind_Inr .
qed

end
